theory Spec2Isabelle
  imports Complex_Main
begin

section \<open>The data model of models.py\<close>

text \<open>
  The module holds a product value object, two closed enumerations, an order with a
  validating constructor, and the collection \<open>Orders\<close> that numbers the orders it
  receives and prints the best order of every transaction type after each insertion.

  Python's \<open>float\<close> is modelled by the exact rational number it denotes: rounding,
  infinities and NaN are outside the model. Python's \<open>int\<close> is \<open>int\<close>.
\<close>

type_synonym pyfloat = rat

text \<open>\<open>class Product\<close>: a name and a price. The class defines neither \<open>__eq__\<close> nor
  \<open>__hash__\<close>, so a dictionary keyed by products distinguishes objects, not contents.\<close>

record Product =
  name :: string
  price :: pyfloat

datatype TransactionType = BUY | SELL

datatype OrderType = ADD | REMOVE

text \<open>The \<open>value\<close> attribute of the enumeration members.\<close>

fun TransactionType_value :: "TransactionType \<Rightarrow> string" where
  "TransactionType_value BUY = ''Buy''"
| "TransactionType_value SELL = ''Sell''"

fun OrderType_value :: "OrderType \<Rightarrow> string" where
  "OrderType_value ADD = ''Add''"
| "OrderType_value REMOVE = ''Remove''"

text \<open>
  The constructor of \<open>Order\<close> is called with arbitrary Python objects for its two enumeration
  arguments; the annotations are not enforced. An argument is a member of one of the two
  enumerations, a string, an integer or \<open>None\<close>.
\<close>

datatype argument =
    TransactionTypeMember TransactionType
  | OrderTypeMember OrderType
  | StrObject string
  | IntObject int
  | NoneObject

text \<open>Python's exceptions: the class of the exception and its message.\<close>

datatype exception_class = TypeError | ValueError | KeyError

datatype exception = Raise exception_class string

fun exception_type :: "exception \<Rightarrow> exception_class" where
  "exception_type (Raise c m) = c"

fun exception_message :: "exception \<Rightarrow> string" where
  "exception_message (Raise c m) = m"

text \<open>
  \<open>x in TransactionType.__members__.values()\<close> compares \<open>x\<close> with the members by \<open>==\<close>.
  An enumeration member is equal to itself only: not to its value (the string \<open>'Buy'\<close>) and
  not to a member of the other enumeration.
\<close>

fun in_TransactionType_members :: "argument \<Rightarrow> TransactionType option" where
  "in_TransactionType_members (TransactionTypeMember t) = Some t"
| "in_TransactionType_members _ = None"

fun in_OrderType_members :: "argument \<Rightarrow> OrderType option" where
  "in_OrderType_members (OrderTypeMember k) = Some k"
| "in_OrderType_members _ = None"

text \<open>
  \<open>class Order\<close>. The \<open>products\<close> dictionary maps product objects to quantities; it is kept as
  the list of its items in insertion order, which is the order \<open>items()\<close> iterates in. Two
  entries with equal name and price stand for two distinct product objects.
\<close>

record Order =
  products :: "(Product \<times> int) list"
  transaction_type :: TransactionType
  order_type :: OrderType

definition TRANSACTION_TYPE_ERROR_MSG :: string where
  \<open>TRANSACTION_TYPE_ERROR_MSG = ''Invalid transaction type. It should be "Buy" or "Sell".''\<close>

definition ORDER_TYPE_ERROR_MSG :: string where
  \<open>ORDER_TYPE_ERROR_MSG = ''Invalid order type. It should be "Add" or "Remove".''\<close>

text \<open>\<open>Order.__init__\<close>: the two membership checks in the order of the source, then the
  three assignments. The products are stored as they come.\<close>

definition Order_init :: "(Product \<times> int) list \<Rightarrow> argument \<Rightarrow> argument \<Rightarrow> exception + Order" where
  \<open>Order_init ps tt ot =
     (case in_TransactionType_members tt of
        None \<Rightarrow> Inl (Raise TypeError ''Invalid transaction type. It should be "Buy" or "Sell".'')
      | Some t \<Rightarrow>
          (case in_OrderType_members ot of
             None \<Rightarrow> Inl (Raise TypeError ''Invalid order type. It should be "Add" or "Remove".'')
           | Some k \<Rightarrow> Inr \<lparr>products = ps, transaction_type = t, order_type = k\<rparr>))\<close>

section \<open>Numbers and their text\<close>

text \<open>
  The running total starts as the integer \<open>0\<close> and has a float added for every product line,
  so it is an integer or a float at run time. Python's arithmetic converts the integer
  operand when the other one is a float, and compares an integer with a float by value.
\<close>

datatype number = IntN int | FloatN pyfloat

fun number_value :: "number \<Rightarrow> rat" where
  "number_value (IntN i) = of_int i"
| "number_value (FloatN f) = f"

fun py_mul :: "number \<Rightarrow> number \<Rightarrow> number" where
  "py_mul (IntN a) (IntN b) = IntN (a * b)"
| "py_mul a b = FloatN (number_value a * number_value b)"

fun py_add :: "number \<Rightarrow> number \<Rightarrow> number" where
  "py_add (IntN a) (IntN b) = IntN (a + b)"
| "py_add a b = FloatN (number_value a + number_value b)"

definition py_lt :: "number \<Rightarrow> number \<Rightarrow> bool" where
  "py_lt a b = (number_value a < number_value b)"

definition py_eq :: "number \<Rightarrow> number \<Rightarrow> bool" where
  "py_eq a b = (number_value a = number_value b)"

text \<open>\<open>str\<close> of an integer: the decimal digits, with a minus sign below zero.\<close>

definition digit_char :: "nat \<Rightarrow> char" where
  "digit_char d = ''0123456789'' ! d"

fun str_nat :: "nat \<Rightarrow> string" where
  "str_nat n = (if n < 10 then [digit_char n] else str_nat (n div 10) @ [digit_char (n mod 10)])"

declare str_nat.simps [simp del]

definition str_int :: "int \<Rightarrow> string" where
  "str_int i = (if i < 0 then CHR ''-'' # str_nat (nat (- i)) else str_nat (nat i))"

text \<open>
  \<open>repr\<close> of a float, which is what an f-string prints for it: the integer part, a point and
  the fractional digits, \<open>0\<close> when there are none, so that an integral float always shows
  as \<open>9801.0\<close>. The digits are those of the exact value, at most seventeen of them; the
  exponent notation Python uses for very large and very small floats is not modelled.
\<close>

fun fraction_digits :: "nat \<Rightarrow> rat \<Rightarrow> string" where
  "fraction_digits 0 r = []"
| "fraction_digits (Suc k) r =
     (if r = 0 then []
      else digit_char (nat \<lfloor>r * 10\<rfloor>) # fraction_digits k (r * 10 - of_int \<lfloor>r * 10\<rfloor>))"

definition repr_float :: "pyfloat \<Rightarrow> string" where
  "repr_float f =
     (let a = \<bar>f\<bar>; whole = \<lfloor>a\<rfloor>; part = a - of_int whole
      in (if f < 0 then ''-'' else []) @ str_nat (nat whole) @ ''.'' @
         (if part = 0 then ''0'' else fraction_digits 17 part))"

fun str_number :: "number \<Rightarrow> string" where
  "str_number (IntN i) = str_int i"
| "str_number (FloatN f) = repr_float f"

section \<open>Dictionaries\<close>

text \<open>
  A Python dictionary iterates in insertion order, and assigning to a key that is present
  keeps the key's position. A dictionary is the list of its items in that order.
\<close>

fun dict_get :: "('k \<times> 'v) list \<Rightarrow> 'k \<Rightarrow> 'v option" where
  "dict_get [] k = None"
| "dict_get ((k', v) # d) k = (if k' = k then Some v else dict_get d k)"

fun dict_set :: "('k \<times> 'v) list \<Rightarrow> 'k \<Rightarrow> 'v \<Rightarrow> ('k \<times> 'v) list" where
  "dict_set [] k v = [(k, v)]"
| "dict_set ((k', v') # d) k v = (if k' = k then (k, v) # d else (k', v') # dict_set d k v)"

section \<open>The collection of orders\<close>

text \<open>
  The state the methods of \<open>Orders\<close> work on: the \<open>orders\<close> dictionary of the object and the
  text written to standard output so far.
\<close>

record state =
  orders :: "(int \<times> Order) list"
  stdout :: string

text \<open>\<open>Orders.__init__\<close>, with nothing printed yet.\<close>

definition Orders_init :: state where
  "Orders_init = \<lparr>orders = [], stdout = []\<rparr>"

definition get_next_id :: "state \<Rightarrow> int" where
  "get_next_id s = int (length (orders s)) + 1"

text \<open>The inner loop of \<open>display_order_with_a_best_price\<close>:
  \<open>total_sum += quantity * product.price\<close> for every item of the products.\<close>

fun add_products :: "number \<Rightarrow> (Product \<times> int) list \<Rightarrow> number" where
  "add_products running [] = running"
| "add_products running ((product, quantity) # rest) =
     add_products (py_add running (py_mul (IntN quantity) (FloatN (price product)))) rest"

definition total_sum :: "Order \<Rightarrow> number" where
  "total_sum order = add_products (IntN 0) (products order)"

text \<open>
  The body of the outer loop. \<open>result.get(order.transaction_type)\<close> is \<open>None\<close> for a type not
  seen yet and a two-element list otherwise; a two-element list is true, so \<open>not\<close> of it
  holds for an unseen type only.
\<close>

type_synonym best = "(TransactionType \<times> int \<times> number) list"

definition record_order :: "best \<Rightarrow> int \<times> Order \<Rightarrow> best" where
  "record_order result entry =
     (let order_id = fst entry; order = snd entry; amount = total_sum order
      in case dict_get result (transaction_type order) of
           None \<Rightarrow> dict_set result (transaction_type order) (order_id, amount)
         | Some details \<Rightarrow>
             if py_lt (snd details) amount
             then dict_set result (transaction_type order) (order_id, amount)
             else result)"

fun best_loop :: "best \<Rightarrow> (int \<times> Order) list \<Rightarrow> best" where
  "best_loop result [] = result"
| "best_loop result (entry # rest) = best_loop (record_order result entry) rest"

definition best_orders :: "(int \<times> Order) list \<Rightarrow> best" where
  "best_orders os = best_loop [] os"

text \<open>One \<open>print\<close> of the second loop: the text and the newline \<open>print\<close> ends it with.\<close>

definition print_line :: "TransactionType \<times> int \<times> number \<Rightarrow> string" where
  "print_line item =
     ''Best '' @ TransactionType_value (fst item) @ '' Order: ID = '' @ str_int (fst (snd item)) @
     '', Price = '' @ str_number (snd (snd item)) @ [CHR 0x0A]"

definition display_order_with_a_best_price :: "state \<Rightarrow> state" where
  "display_order_with_a_best_price s =
     s\<lparr>stdout := stdout s @ concat (map print_line (best_orders (orders s)))\<rparr>"

definition add_order :: "Order \<Rightarrow> state \<Rightarrow> state" where
  "add_order order s =
     display_order_with_a_best_price (s\<lparr>orders := dict_set (orders s) (get_next_id s) order\<rparr>)"

text \<open>A caller adding the orders of a list one after the other, as the tests do.\<close>

fun add_orders :: "Order list \<Rightarrow> state \<Rightarrow> state" where
  "add_orders [] s = s"
| "add_orders (order # rest) s = add_orders rest (add_order order s)"

text \<open>The orders of the fixture \<open>fixture_orders\<close> of models_test.py.\<close>

definition fixture_orders :: "Order list" where
  "fixture_orders =
    [\<lparr>products = [(\<lparr>name = ''Banana'', price = 99.0\<rparr>, 99)], transaction_type = BUY, order_type = ADD\<rparr>,
     \<lparr>products = [(\<lparr>name = ''Apple'', price = 1.0\<rparr>, 1)], transaction_type = BUY, order_type = ADD\<rparr>,
     \<lparr>products = [(\<lparr>name = ''Orange'', price = 53.0\<rparr>, 1)], transaction_type = SELL, order_type = ADD\<rparr>,
     \<lparr>products = [(\<lparr>name = ''Lemon'', price = 0.1\<rparr>, 9)], transaction_type = SELL, order_type = ADD\<rparr>]"

section \<open>What the report should name\<close>


text \<open>The distinct elements of a list in the order of their first occurrence.\<close>

fun first_seen :: "'a list \<Rightarrow> 'a list" where
  "first_seen [] = []"
| "first_seen (x # xs) = x # filter (\<lambda>y. y \<noteq> x) (first_seen xs)"

text \<open>Orders used as concrete inputs: two orders with the same total, the same two with
  their order types exchanged, and an order without products.\<close>

definition tied_orders :: "Order list" where
  "tied_orders =
    [\<lparr>products = [(\<lparr>name = ''Pear'', price = 2.5\<rparr>, 4)], transaction_type = BUY, order_type = ADD\<rparr>,
     \<lparr>products = [(\<lparr>name = ''Plum'', price = 5.0\<rparr>, 2)], transaction_type = BUY, order_type = REMOVE\<rparr>]"

definition tied_orders_flipped :: "Order list" where
  "tied_orders_flipped =
    [\<lparr>products = [(\<lparr>name = ''Pear'', price = 2.5\<rparr>, 4)], transaction_type = BUY, order_type = REMOVE\<rparr>,
     \<lparr>products = [(\<lparr>name = ''Plum'', price = 5.0\<rparr>, 2)], transaction_type = BUY, order_type = ADD\<rparr>]"

definition empty_order :: Order where
  "empty_order = \<lparr>products = [], transaction_type = BUY, order_type = ADD\<rparr>"

section \<open>The constructor of Order\<close>

lemma in_TransactionType_members_None:
  "(in_TransactionType_members a = None) = (\<forall>t. a \<noteq> TransactionTypeMember t)"
  by (cases a) simp_all

lemma in_OrderType_members_None:
  "(in_OrderType_members a = None) = (\<forall>k. a \<noteq> OrderTypeMember k)"
  by (cases a) simp_all



text \<open>
  C10. The two validation failures raise the same class of exception, \<open>TypeError\<close>: the
  failure for the transaction type and the failure for the order type differ in their
  message only.
\<close>

theorem Order_init_errors_share_TypeError:
  assumes "\<forall>t. tt \<noteq> TransactionTypeMember t" and "\<forall>k. ot \<noteq> OrderTypeMember k"
  shows "\<exists>e1 e2. Order_init ps tt ot' = Inl e1 \<and>
           Order_init ps (TransactionTypeMember t) ot = Inl e2 \<and>
           exception_type e1 = TypeError \<and> exception_type e2 = TypeError \<and>
           exception_message e1 \<noteq> exception_message e2"
proof -
  from assms(1) have "in_TransactionType_members tt = None"
    by (simp add: in_TransactionType_members_None)
  moreover from assms(2) have "in_OrderType_members ot = None"
    by (simp add: in_OrderType_members_None)
  ultimately show ?thesis
    by (simp add: Order_init_def)
qed

theorem Order_init_errors_share_TypeError_witness:
  "\<exists>e1 e2. Order_init [] (StrObject ''Buy'') (OrderTypeMember ADD) = Inl e1 \<and>
           Order_init [] (TransactionTypeMember BUY) NoneObject = Inl e2 \<and>
           exception_type e1 = TypeError \<and> exception_type e2 = TypeError \<and>
           exception_message e1 \<noteq> exception_message e2"
  using Order_init_errors_share_TypeError [of "StrObject ''Buy''" NoneObject "[]" "OrderTypeMember ADD" BUY]
  by simp

section \<open>Identifiers\<close>

lemma dict_set_fresh: "k \<notin> fst ` set d \<Longrightarrow> dict_set d k v = d @ [(k, v)]"
  by (induction d) auto

lemma add_orders_append: "add_orders (xs @ ys) s = add_orders ys (add_orders xs s)"
  by (induction xs arbitrary: s) simp_all

lemma orders_display [simp]: "orders (display_order_with_a_best_price s) = orders s"
  by (simp add: display_order_with_a_best_price_def)

lemma orders_add_orders: "orders (add_orders os Orders_init) = zip [1..int (length os)] os"
proof (induction os rule: rev_induct)
  case Nil
  show ?case by (simp add: Orders_init_def)
next
  case (snoc x xs)
  let ?s = "add_orders xs Orders_init"
  have len: "length (orders ?s) = length xs" by (simp add: snoc)
  have fresh: "int (length xs) + 1 \<notin> fst ` set (orders ?s)"
    by (auto simp: snoc dest!: set_zip_leftD)
  have "orders (add_orders (xs @ [x]) Orders_init) = orders ?s @ [(int (length xs) + 1, x)]"
    by (simp add: add_orders_append add_order_def get_next_id_def len dict_set_fresh [OF fresh])
  also have "\<dots> = zip ([1..int (length xs)] @ [int (length xs) + 1]) (xs @ [x])"
    by (simp add: snoc)
  also have "[1..int (length xs)] @ [int (length xs) + 1] = [1..int (length (xs @ [x]))]"
    by (simp add: upto_rec2)
  finally show ?case .
qed

lemma next_id_add_orders: "get_next_id (add_orders os Orders_init) = int (length os) + 1"
  by (simp add: get_next_id_def orders_add_orders)

text \<open>
  C3. On a fresh collection the call number N of \<open>add_order\<close> stores its order under the
  identifier N: after the orders of a list have been added, the collection holds them in
  order under the keys 1, 2, ... up to the number of orders, so it has exactly that many
  entries, and the identifier the next call will use is that number plus one.
  \<open>_get_next_id\<close> is the number of stored orders plus one in every state; it returns an
  integer only and has no access to the state it leaves behind.
\<close>

theorem add_order_assigns_sequential_ids:
  "orders (add_orders os Orders_init) = zip [1..int (length os)] os \<and>
   map fst (orders (add_orders os Orders_init)) = [1..int (length os)] \<and>
   length (orders (add_orders os Orders_init)) = length os \<and>
   get_next_id (add_orders os Orders_init) = int (length os) + 1 \<and>
   get_next_id s = int (length (orders s)) + 1"
  by (simp add: orders_add_orders next_id_add_orders get_next_id_def)

section \<open>Dictionaries and totals\<close>

lemma dict_get_dict_set: "dict_get (dict_set d k v) k' = (if k' = k then Some v else dict_get d k')"
  by (induction d) auto





lemma number_value_py_mul: "number_value (py_mul a b) = number_value a * number_value b"
  by (cases a; cases b) simp_all







lemmas orders_eval =
  Orders_init_def add_order_def get_next_id_def display_order_with_a_best_price_def
  best_orders_def record_order_def total_sum_def print_line_def str_int_def py_lt_def py_eq_def
  repr_float_def str_nat.simps digit_char_def Let_def

section \<open>The best order of every transaction type\<close>




lemma orders_add_order:
  "orders (add_order b (add_orders os Orders_init)) =
     orders (add_orders os Orders_init) @ [(int (length os) + 1, b)]"
  using orders_add_orders [of "os @ [b]"]
  by (simp add: add_orders_append orders_add_orders upto_rec2)














section \<open>What add_order changes\<close>

text \<open>
  C9. \<open>add_order\<close> changes the collection by the new entry only: on a collection built by
  \<open>add_order\<close> the stored items are the old ones followed by the new identifier with the
  order as it was passed, and in every state the entries under the other keys are as before
  and the new key holds the passed order unchanged.
  \<open>display_order_with_a_best_price\<close> leaves the \<open>orders\<close> dictionary as it is: it extends the
  standard output and changes nothing else, so the summary it computes is neither returned
  nor stored.
\<close>

theorem add_order_frame:
  "orders (add_order order (add_orders os Orders_init)) =
     orders (add_orders os Orders_init) @ [(int (length os) + 1, order)] \<and>
   (k \<noteq> get_next_id s \<longrightarrow> dict_get (orders (add_order order s)) k = dict_get (orders s) k) \<and>
   dict_get (orders (add_order order s)) (get_next_id s) = Some order \<and>
   orders (display_order_with_a_best_price s) = orders s \<and>
   display_order_with_a_best_price s =
     s\<lparr>stdout := stdout s @ concat (map print_line (best_orders (orders s)))\<rparr>"
proof (intro conjI impI)
  show "orders (add_order order (add_orders os Orders_init)) =
     orders (add_orders os Orders_init) @ [(int (length os) + 1, order)]"
    by (rule orders_add_order)
next
  assume "k \<noteq> get_next_id s"
  then show "dict_get (orders (add_order order s)) k = dict_get (orders s) k"
    by (simp add: add_order_def dict_get_dict_set)
next
  show "dict_get (orders (add_order order s)) (get_next_id s) = Some order"
    by (simp add: add_order_def dict_get_dict_set)
next
  show "orders (display_order_with_a_best_price s) = orders s"
    by simp
next
  show "display_order_with_a_best_price s =
     s\<lparr>stdout := stdout s @ concat (map print_line (best_orders (orders s)))\<rparr>"
    by (simp add: display_order_with_a_best_price_def)
qed

theorem add_order_frame_witness:
  "dict_get (orders (add_order empty_order (add_orders fixture_orders Orders_init))) 2 =
     Some (fixture_orders ! 1)"
proof -
  have "(2::int) \<noteq> get_next_id (add_orders fixture_orders Orders_init)"
    by (simp add: next_id_add_orders) (simp add: fixture_orders_def)
  moreover have "dict_get (orders (add_orders fixture_orders Orders_init)) 2 = Some (fixture_orders ! 1)"
    by (simp add: fixture_orders_def Orders_init_def add_order_def get_next_id_def)
  ultimately show ?thesis
    using add_order_frame [of empty_order "[]" 2 "add_orders fixture_orders Orders_init"] by simp
qed

section \<open>The printed text\<close>

text \<open>
  C5. Adding the four orders of the fixture to a fresh collection writes one line after the
  first order, one more after the second, two more after the third and two more after the
  fourth: six lines, the best buy order being order 1 at 9801.0 throughout and the best
  sell order being order 3 at 53.0 from the third insertion on.
\<close>

theorem fixture_scenario_output:
  "stdout (add_orders (take 1 fixture_orders) Orders_init) =
     ''Best Buy Order: ID = 1, Price = 9801.0'' @ [CHR 0x0A] \<and>
   stdout (add_orders (take 2 fixture_orders) Orders_init) =
     ''Best Buy Order: ID = 1, Price = 9801.0'' @ [CHR 0x0A] @
     ''Best Buy Order: ID = 1, Price = 9801.0'' @ [CHR 0x0A] \<and>
   stdout (add_orders (take 3 fixture_orders) Orders_init) =
     ''Best Buy Order: ID = 1, Price = 9801.0'' @ [CHR 0x0A] @
     ''Best Buy Order: ID = 1, Price = 9801.0'' @ [CHR 0x0A] @
     ''Best Buy Order: ID = 1, Price = 9801.0'' @ [CHR 0x0A] @
     ''Best Sell Order: ID = 3, Price = 53.0'' @ [CHR 0x0A] \<and>
   stdout (add_orders fixture_orders Orders_init) =
     ''Best Buy Order: ID = 1, Price = 9801.0'' @ [CHR 0x0A] @
     ''Best Buy Order: ID = 1, Price = 9801.0'' @ [CHR 0x0A] @
     ''Best Buy Order: ID = 1, Price = 9801.0'' @ [CHR 0x0A] @
     ''Best Sell Order: ID = 3, Price = 53.0'' @ [CHR 0x0A] @
     ''Best Buy Order: ID = 1, Price = 9801.0'' @ [CHR 0x0A] @
     ''Best Sell Order: ID = 3, Price = 53.0'' @ [CHR 0x0A]"
  by (simp add: fixture_orders_def orders_eval)

lemma set_first_seen [simp]: "set (first_seen xs) = set xs"
  by (induction xs) auto

lemma distinct_first_seen [simp]: "distinct (first_seen xs)"
  by (induction xs) auto






lemma stdout_add_order:
  "stdout (add_order b s) = stdout s @ concat (map print_line (best_orders (orders (add_order b s))))"
  by (simp add: add_order_def display_order_with_a_best_price_def)





section \<open>The order type\<close>

lemma total_sum_order_type [simp]: "total_sum (b\<lparr>order_type := k\<rparr>) = total_sum b"
  by (simp add: total_sum_def)

lemma record_order_order_type [simp]:
  "record_order r (i, b\<lparr>order_type := k\<rparr>) = record_order r (i, b)"
  by (simp add: record_order_def Let_def split: option.split)

lemma best_loop_order_type:
  "best_loop r (zip ids (map (\<lambda>b. b\<lparr>order_type := k\<rparr>) os)) = best_loop r (zip ids os)"
proof (induction os arbitrary: ids r)
  case Nil
  show ?case by simp
next
  case (Cons b os)
  then show ?case by (cases ids) simp_all
qed

lemma best_orders_book:
  "map (\<lambda>b. b\<lparr>order_type := k\<rparr>) os = map (\<lambda>b. b\<lparr>order_type := k\<rparr>) os' \<Longrightarrow>
     best_orders (orders (add_orders os Orders_init)) = best_orders (orders (add_orders os' Orders_init))"
proof -
  assume same: "map (\<lambda>b. b\<lparr>order_type := k\<rparr>) os = map (\<lambda>b. b\<lparr>order_type := k\<rparr>) os'"
  then have len: "length os = length os'"
    by (rule map_eq_imp_length_eq)
  have "best_orders (zip [1..int (length os)] os) =
        best_orders (zip [1..int (length os)] (map (\<lambda>b. b\<lparr>order_type := k\<rparr>) os))"
    by (simp add: best_orders_def best_loop_order_type)
  also have "\<dots> = best_orders (zip [1..int (length os')] (map (\<lambda>b. b\<lparr>order_type := k\<rparr>) os'))"
    by (simp only: same len)
  also have "\<dots> = best_orders (zip [1..int (length os')] os')"
    by (simp add: best_orders_def best_loop_order_type)
  finally show ?thesis
    by (simp only: orders_add_orders)
qed

lemma stdout_add_orders_snoc:
  "stdout (add_orders (os @ [b]) Orders_init) =
     stdout (add_orders os Orders_init) @
     concat (map print_line (best_orders (orders (add_orders (os @ [b]) Orders_init))))"
  by (simp add: add_orders_append stdout_add_order)

lemma stdout_order_type:
  "map (\<lambda>b. b\<lparr>order_type := k\<rparr>) os = map (\<lambda>b. b\<lparr>order_type := k\<rparr>) os' \<Longrightarrow>
     stdout (add_orders os Orders_init) = stdout (add_orders os' Orders_init)"
proof (induction os arbitrary: os' rule: rev_induct)
  case Nil
  then show ?case by simp
next
  case (snoc b os)
  from snoc.prems obtain ys c where os': "os' = ys @ [c]"
    and pre: "map (\<lambda>b. b\<lparr>order_type := k\<rparr>) os = map (\<lambda>b. b\<lparr>order_type := k\<rparr>) ys"
    by (cases os' rule: rev_cases) auto
  have "stdout (add_orders os Orders_init) = stdout (add_orders ys Orders_init)"
    by (rule snoc.IH [OF pre])
  moreover have "best_orders (orders (add_orders (os @ [b]) Orders_init)) =
                 best_orders (orders (add_orders (ys @ [c]) Orders_init))"
    using snoc.prems unfolding os' by (rule best_orders_book)
  ultimately show ?case
    by (simp only: os' stdout_add_orders_snoc)
qed

text \<open>
  C8. The order type is inert: when two lists of orders are equal once the order type of
  every order is overwritten by the same value, adding them to fresh collections gives the
  same standard output, the same identifiers, and the same stored entries up to the order
  type.
\<close>

theorem order_type_is_inert:
  assumes "map (\<lambda>b. b\<lparr>order_type := ADD\<rparr>) os = map (\<lambda>b. b\<lparr>order_type := ADD\<rparr>) os'"
  shows "stdout (add_orders os Orders_init) = stdout (add_orders os' Orders_init) \<and>
         map fst (orders (add_orders os Orders_init)) = map fst (orders (add_orders os' Orders_init)) \<and>
         map (\<lambda>(i, b). (i, b\<lparr>order_type := ADD\<rparr>)) (orders (add_orders os Orders_init)) =
           map (\<lambda>(i, b). (i, b\<lparr>order_type := ADD\<rparr>)) (orders (add_orders os' Orders_init))"
proof (intro conjI)
  from assms have len: "length os = length os'"
    by (rule map_eq_imp_length_eq)
  show "stdout (add_orders os Orders_init) = stdout (add_orders os' Orders_init)"
    using assms by (rule stdout_order_type)
  show "map fst (orders (add_orders os Orders_init)) = map fst (orders (add_orders os' Orders_init))"
    by (simp add: orders_add_orders len)
  have erase: "\<And>xs. map (\<lambda>(i, b). (i, b\<lparr>order_type := ADD\<rparr>)) (zip [1..int (length xs)] xs) =
                  zip [1..int (length xs)] (map (\<lambda>b. b\<lparr>order_type := ADD\<rparr>) xs)"
    by (simp add: zip_map2)
  have "map (\<lambda>(i, b). (i, b\<lparr>order_type := ADD\<rparr>)) (orders (add_orders os Orders_init)) =
        zip [1..int (length os)] (map (\<lambda>b. b\<lparr>order_type := ADD\<rparr>) os)"
    by (simp only: orders_add_orders erase)
  also have "\<dots> = zip [1..int (length os')] (map (\<lambda>b. b\<lparr>order_type := ADD\<rparr>) os')"
    by (simp only: assms len)
  also have "\<dots> = map (\<lambda>(i, b). (i, b\<lparr>order_type := ADD\<rparr>)) (orders (add_orders os' Orders_init))"
    by (simp only: orders_add_orders erase)
  finally show "map (\<lambda>(i, b). (i, b\<lparr>order_type := ADD\<rparr>)) (orders (add_orders os Orders_init)) =
           map (\<lambda>(i, b). (i, b\<lparr>order_type := ADD\<rparr>)) (orders (add_orders os' Orders_init))" .
qed

theorem order_type_is_inert_witness:
  "stdout (add_orders tied_orders Orders_init) = stdout (add_orders tied_orders_flipped Orders_init) \<and>
   map fst (orders (add_orders tied_orders Orders_init)) =
     map fst (orders (add_orders tied_orders_flipped Orders_init))"
proof -
  have same: "map (\<lambda>b. b\<lparr>order_type := ADD\<rparr>) tied_orders =
              map (\<lambda>b. b\<lparr>order_type := ADD\<rparr>) tied_orders_flipped"
    by (simp add: tied_orders_def tied_orders_flipped_def)
  from order_type_is_inert [OF same] show ?thesis by simp
qed

end
